theory Spec2Isabelle
  imports Main "HOL-Library.AList"
begin

section \<open>JavaScript values used by the stores\<close>

text \<open>
  The request token of a fetch is the string returned by \<^verbatim>\<open>guidGenerator()\<close>
  (utils/random). The generator is taken as an input of the model: every function that
  calls it receives the minted string as an argument.
\<close>

type_synonym token = string

text \<open>
  A raw record as the server sends it: the mandatory \<^verbatim>\<open>id\<close> and the remaining
  fields, kept opaque. An Item of the list is such a record plus \<^verbatim>\<open>source\<close>, the
  text \<^verbatim>\<open>JSON.stringify(t)\<close> of the record it was built from; an Item built by
  \<^verbatim>\<open>listItemType.create(patch)\<close> may carry no \<^verbatim>\<open>source\<close>.
\<close>

record 'a raw =
  raw_id :: int
  raw_fields :: 'a

record 'a item =
  item_id :: int
  item_fields :: 'a
  source :: "string option"

text \<open>
  The values a dynamically typed variable of the list cache can hold: \<^verbatim>\<open>undefined\<close>,
  \<^verbatim>\<open>null\<close>, a number, or an Item object.
\<close>

datatype 'a jsval = Undefined | Null | Num int | Obj "'a item"

text \<open>
  \<^verbatim>\<open>isDefined\<close> (utils/utils) is true of every value but \<^verbatim>\<open>null\<close> and
  \<^verbatim>\<open>undefined\<close>.
\<close>

fun isDefined :: "'a jsval \<Rightarrow> bool" where
  "isDefined Undefined = False"
| "isDefined Null = False"
| "isDefined _ = True"

text \<open>Truthiness of an optional number and of an optional string.\<close>

fun truthy_num :: "int option \<Rightarrow> bool" where
  "truthy_num None = False"
| "truthy_num (Some n) = (n \<noteq> 0)"

fun truthy_str :: "string option \<Rightarrow> bool" where
  "truthy_str None = False"
| "truthy_str (Some s) = (s \<noteq> [])"

text \<open>
  \<^verbatim>\<open>Array.prototype.findIndex\<close>: the index of the first element that satisfies
  the predicate, \<open>-1\<close> when there is none.
\<close>

fun findIndex :: "('a \<Rightarrow> bool) \<Rightarrow> 'a list \<Rightarrow> int" where
  "findIndex P [] = - 1"
| "findIndex P (x # xs) =
     (if P x then 0
      else (let i = findIndex P xs in if i < 0 then - 1 else i + 1))"

text \<open>\<^verbatim>\<open>xs.splice(index, 1)\<close> for an index within the array.\<close>

definition splice1 :: "nat \<Rightarrow> 'a list \<Rightarrow> 'a list" where
  "splice1 index xs = take index xs @ drop (index + 1) xs"

text \<open>
  What the stores do to the outside world: console output, notifications of the external
  host (\<^verbatim>\<open>SDK.invoke\<close>), and the calls into collaborators that are not part of the
  stores. Every operation returns the effects it performed, in order.
\<close>

datatype mode = explorer | labelstream | labeling

record setTask_params =
  st_taskID :: "int option"
  st_annotationID :: "int option"
  st_pushState :: "bool option"

datatype effect =
    ConsoleLog string
  | ConsoleWarn string
  | SdkInvoke string
  | SdkSetMode mode
  | SdkDestroyLSF
  | ModalConfirm
  | HistoryNavigate "int option" "int option"
  | HistoryForceNavigate string
  | ViewLock
  | CallSetTask setTask_params

section \<open>The list cache: mixins/DataStore/DataStore.js\<close>

text \<open>
  The composed model of \<^verbatim>\<open>DataStore(modelName, ...)\<close>: the properties of
  \<^verbatim>\<open>MixinBase\<close>, then \<^verbatim>\<open>list\<close>, \<^verbatim>\<open>selectedId\<close>, \<^verbatim>\<open>highlightedId\<close> and the
  volatile \<^verbatim>\<open>requestId\<close> (\<^verbatim>\<open>null\<close> until the first fetch). The fields \<^verbatim>\<open>list\<close>
  and \<^verbatim>\<open>total\<close> are named \<open>list_items\<close> and \<open>total_cnt\<close> here.
\<close>

record 'a store =
  page :: int
  pageSize :: int
  total_cnt :: int
  loading :: bool
  loadingItem :: bool
  loadingItems :: "int list"
  updated :: token
  list_items :: "'a item list"
  selectedId :: "int option"
  highlightedId :: "int option"
  requestId :: "token option"

text \<open>\<^verbatim>\<open>listIncludes(list, id)\<close>, lines 6-13. The comparison is \<^verbatim>\<open>item.id === id\<close>:
  a number is strictly equal to the same number only, never to an object or to \<^verbatim>\<open>null\<close>.\<close>

definition listIncludes :: "'a item list \<Rightarrow> 'a jsval \<Rightarrow> bool" where
  "listIncludes lst v =
     (let index = (if v \<noteq> Undefined
                   then findIndex (\<lambda>item. Num (item_id item) = v) lst
                   else - 1)
      in index \<ge> 0)"

text \<open>The views \<^verbatim>\<open>selected\<close> and \<^verbatim>\<open>highlighted\<close>: \<^verbatim>\<open>list.find\<close> by id, \<open>None\<close> for
  \<^verbatim>\<open>undefined\<close>.\<close>

definition selected :: "'a store \<Rightarrow> 'a item option" where
  "selected s = find (\<lambda>i. Some (item_id i) = selectedId s) (list_items s)"

definition highlighted :: "'a store \<Rightarrow> 'a item option" where
  "highlighted s = find (\<lambda>i. Some (item_id i) = highlightedId s) (list_items s)"

text \<open>The setters store \<^verbatim>\<open>item?.id ?? item\<close>; the field is \<^verbatim>\<open>maybeNull(number)\<close>.\<close>

fun id_or_self :: "'a jsval \<Rightarrow> int option" where
  "id_or_self (Obj i) = Some (item_id i)"
| "id_or_self (Num n) = Some n"
| "id_or_self Null = None"
| "id_or_self Undefined = None"

definition set_selected :: "'a jsval \<Rightarrow> 'a store \<Rightarrow> 'a store" where
  "set_selected v s = s\<lparr>selectedId := id_or_self v\<rparr>"

definition set_highlighted :: "'a jsval \<Rightarrow> 'a store \<Rightarrow> 'a store" where
  "set_highlighted v s = s\<lparr>highlightedId := id_or_self v\<rparr>"

text \<open>\<^verbatim>\<open>unset({ withHightlight = false } = {})\<close>, lines 76-79.\<close>

definition unset :: "bool \<Rightarrow> 'a store \<Rightarrow> 'a store" where
  "unset withHightlight s =
     (let s1 = set_selected Undefined s
      in if withHightlight then set_highlighted Undefined s1 else s1)"

text \<open>
  \<^verbatim>\<open>setList({ list, total, reload })\<close>, lines 81-102. \<open>stringify\<close> stands for
  \<^verbatim>\<open>JSON.stringify\<close>. The loop over the new entities removes, for each of them, the
  first Item of the list with the same id.
\<close>

definition wrap_record :: "('a raw \<Rightarrow> string) \<Rightarrow> 'a raw \<Rightarrow> 'a item" where
  "wrap_record stringify t =
     \<lparr>item_id = raw_id t, item_fields = raw_fields t, source = Some (stringify t)\<rparr>"

definition remove_existing :: "'a item list \<Rightarrow> 'a item \<Rightarrow> 'a item list" where
  "remove_existing lst n =
     (let index = findIndex (\<lambda>i. item_id i = item_id n) lst
      in if index \<ge> 0 then splice1 (nat index) lst else lst)"

definition setList ::
  "('a raw \<Rightarrow> string) \<Rightarrow> 'a raw list \<Rightarrow> int \<Rightarrow> bool \<Rightarrow> 'a store \<Rightarrow> 'a store" where
  "setList stringify lst tot reload s =
     (let newEntity = map (wrap_record stringify) lst;
          s1 = s\<lparr>total_cnt := tot\<rparr>;
          s2 = s1\<lparr>list_items := foldl remove_existing (list_items s1) newEntity\<rparr>
      in if reload then s2\<lparr>list_items := newEntity\<rparr>
         else s2\<lparr>list_items := list_items s2 @ newEntity\<rparr>)"

text \<open>\<^verbatim>\<open>clear()\<close>, lines 120-125.\<close>

definition clear :: "'a store \<Rightarrow> 'a store" where
  "clear s = (set_highlighted Undefined s)\<lparr>list_items := [], page := 0, total_cnt := 0\<rparr>"

text \<open>
  \<^verbatim>\<open>updateItem(itemID, patch)\<close>, lines 160-171. The item type is supplied by the caller
  of \<^verbatim>\<open>DataStore\<close>: \<open>update\<close> is its \<^verbatim>\<open>item.update(patch)\<close> and \<open>create\<close> its
  \<^verbatim>\<open>listItemType.create(patch)\<close>.
\<close>

definition updateItem ::
  "('p \<Rightarrow> 'a item \<Rightarrow> 'a item) \<Rightarrow> ('p \<Rightarrow> 'a item) \<Rightarrow> int \<Rightarrow> 'p \<Rightarrow> 'a store
     \<Rightarrow> 'a store \<times> 'a item" where
  "updateItem update create itemID patch s =
     (let index = findIndex (\<lambda>t. item_id t = itemID) (list_items s)
      in if index \<ge> 0
         then (let item = update patch (list_items s ! nat index)
               in (s\<lparr>list_items := (list_items s)[nat index := item]\<rparr>, item))
         else (let item = create patch
               in (s\<lparr>list_items := list_items s @ [item]\<rparr>, item)))"

text \<open>
  The descriptor of the selected view, supplied by the views subsystem
  (\<^verbatim>\<open>viewsStore.selected\<close>); \<open>None\<close> in a field stands for \<^verbatim>\<open>undefined\<close>. The
  selection snapshot is \<^verbatim>\<open>{all, included}\<close>.
\<close>

record selection =
  sel_all :: bool
  sel_included :: "int list"

record view_info =
  view_id :: "int option"
  view_virtual :: bool
  view_query :: "string option"
  view_target :: "string option"
  view_tabKey :: "string option"
  view_ordering :: "string list option"
  view_selected :: "selection option"
  view_conjunction :: "string option"
  view_serializedFilters :: "string list option"

text \<open>
  \<^verbatim>\<open>fetch({ id, query, pageNumber = null, reload = false, interaction, pageSize })\<close>,
  lines 173-244. The flow suspends once, at \<^verbatim>\<open>yield getRoot(self).apiCall(...)\<close>; other
  tasks run between the two halves. \<open>fetch_begin\<close> is the code up to the \<^verbatim>\<open>yield\<close>: it
  returns the new state and, unless it returned early, the suspended call with the locals
  the second half reads. \<open>fetch_resume\<close> is the code after the \<^verbatim>\<open>yield\<close>, run on the
  state the store has when the response arrives.
\<close>

record fetch_opts =
  opt_id :: "int option"
  opt_query :: "string option"
  opt_pageNumber :: "int option"
  opt_reload :: bool
  opt_interaction :: "string option"
  opt_pageSize :: "int option"

record fetch_params =
  p_page :: int
  p_page_size :: int
  p_query :: "string option"
  p_view :: "int option"
  p_interaction :: "string option"

record pending_fetch =
  pf_requestId :: token
  pf_reload :: bool
  pf_pageNumber :: "int option"
  pf_params :: fetch_params

definition fetch_begin ::
  "view_info option \<Rightarrow> token \<Rightarrow> fetch_opts \<Rightarrow> 'a store \<Rightarrow> 'a store \<times> pending_fetch option" where
  "fetch_begin currentView guid opts s =
     (let s0 = s\<lparr>requestId := Some guid\<rparr>;
          (currentViewId, currentViewQuery) =
            (if truthy_num (opt_id opts) then (opt_id opts, opt_query opts)
             else (case currentView of
                     None \<Rightarrow> (None, None)
                   | Some v \<Rightarrow> (view_id v, if view_virtual v then view_query v else None)))
      in if currentViewId = None then (s0, None)
         else
           (let s1 = s0\<lparr>loading := True\<rparr>;
                s2 = (if opt_reload opts \<or> opt_pageNumber opts \<noteq> None
                      then (if page s1 = 0 then s1\<lparr>page := 1\<rparr>
                            else (case opt_pageNumber opts of
                                    Some n \<Rightarrow> s1\<lparr>page := n\<rparr>
                                  | None \<Rightarrow> s1))
                      else s1\<lparr>page := page s1 + 1\<rparr>);
                s3 = (if truthy_num (opt_pageSize opts)
                      then (case opt_pageSize opts of Some n \<Rightarrow> s2\<lparr>pageSize := n\<rparr> | None \<Rightarrow> s2)
                      else s2);
                params0 = \<lparr>p_page = page s3, p_page_size = pageSize s3,
                           p_query = None, p_view = None, p_interaction = None\<rparr>;
                params1 = (if truthy_str currentViewQuery
                           then params0\<lparr>p_query := currentViewQuery\<rparr>
                           else params0\<lparr>p_view := currentViewId\<rparr>);
                params = (if truthy_str (opt_interaction opts)
                          then params1\<lparr>p_interaction := opt_interaction opts\<rparr>
                          else params1)
            in (s3, Some \<lparr>pf_requestId = guid, pf_reload = opt_reload opts,
                          pf_pageNumber = opt_pageNumber opts, pf_params = params\<rparr>)))"

text \<open>
  The fields \<open>fetch\<close> reads off the result of the call: \<^verbatim>\<open>total\<close> and the record list
  under the key \<^verbatim>\<open>apiMethod\<close> (absent when the result is error-shaped).
\<close>

record 'a response =
  resp_total :: int
  resp_list :: "'a raw list option"

text \<open>
  \<open>postProcessData\<close> is the optional hook \<^verbatim>\<open>self.postProcessData?.(data)\<close> of a store
  composed with further actions; \<open>None\<close> when the store defines none.
\<close>

definition fetch_resume ::
  "('a raw \<Rightarrow> string) \<Rightarrow> ('a response \<Rightarrow> 'a store \<Rightarrow> 'a store) option \<Rightarrow> pending_fetch
     \<Rightarrow> 'a response \<Rightarrow> 'a store \<Rightarrow> 'a store \<times> effect list" where
  "fetch_resume stringify postProcessData pf data s =
     (if Some (pf_requestId pf) \<noteq> requestId s
      then (s, [ConsoleLog (''Request '' @ pf_requestId pf @ '' was cancelled by another request'')])
      else
        (let highlightedID = (case highlighted s of None \<Rightarrow> Undefined | Some i \<Rightarrow> Obj i);
             s1 = (case resp_list data of
                     Some lst \<Rightarrow>
                       setList stringify lst (resp_total data)
                         (pf_reload pf \<or> pf_pageNumber pf \<noteq> None) s
                   | None \<Rightarrow> s);
             s2 = (if isDefined highlightedID \<and> \<not> listIncludes (list_items s1) highlightedID
                   then set_highlighted Null s1 else s1);
             s3 = (case postProcessData of Some hook \<Rightarrow> hook data s2 | None \<Rightarrow> s2);
             s4 = s3\<lparr>loading := False\<rparr>
         in (s4, [SdkInvoke ''dataFetched''])))"

text \<open>
  What can happen to a store between the two halves of one \<open>fetch\<close>: another \<open>fetch\<close> is
  called and runs up to its \<^verbatim>\<open>yield\<close>, or the response of a suspended \<open>fetch\<close> arrives and
  its second half runs. \<open>fetch_run\<close> plays a sequence of such events in order.
\<close>

record fetch_call =
  fc_view :: "view_info option"
  fc_guid :: token
  fc_opts :: fetch_opts

datatype 'a fetch_event = BeginFetch fetch_call | ResumeFetch pending_fetch "'a response"

definition fetch_step ::
  "('a raw \<Rightarrow> string) \<Rightarrow> ('a response \<Rightarrow> 'a store \<Rightarrow> 'a store) option \<Rightarrow> 'a store
     \<Rightarrow> 'a fetch_event \<Rightarrow> 'a store" where
  "fetch_step stringify postProcessData s ev =
     (case ev of
        BeginFetch c \<Rightarrow> fst (fetch_begin (fc_view c) (fc_guid c) (fc_opts c) s)
      | ResumeFetch pf data \<Rightarrow> fst (fetch_resume stringify postProcessData pf data s))"

definition fetch_run ::
  "('a raw \<Rightarrow> string) \<Rightarrow> ('a response \<Rightarrow> 'a store \<Rightarrow> 'a store) option
     \<Rightarrow> 'a fetch_event list \<Rightarrow> 'a store \<Rightarrow> 'a store" where
  "fetch_run stringify postProcessData evs s =
     foldl (fetch_step stringify postProcessData) s evs"

section \<open>The orchestrator: stores/AppStore.js\<close>

text \<open>What a function of the orchestrator can raise: a \<^verbatim>\<open>TypeError\<close> of the runtime, or
  the reason a rejected promise was rejected with, thrown at the \<^verbatim>\<open>yield\<close>.\<close>

datatype js_error = TypeError | Thrown string

record project_info =
  config_has_control_tags :: "bool option"

record error_entry =
  err_error :: string
  err_response :: string

text \<open>
  What the transport returns: the payload, and the fields \<open>apiCall\<close> inspects. \<open>None\<close>
  stands for an absent (falsy) \<^verbatim>\<open>error\<close> or \<^verbatim>\<open>response\<close>.
\<close>

record 'd api_result =
  res_data :: 'd
  res_error :: "string option"
  res_status :: int
  res_response :: "string option"

record 'a app =
  mode :: mode
  currentView :: "view_info option"
  views :: "view_info list"
  project :: project_info
  loadingData :: bool
  taskStore :: "'a store option"
  annotationStore :: "'a store option"
  availableActions :: "string list"
  serverError :: "(string \<times> error_entry) list"
  crashed :: bool

text \<open>The views \<open>target\<close>, \<open>dataStore\<close> and \<open>labelingIsConfigured\<close>, lines 91-108.\<close>

definition target :: "'a app \<Rightarrow> string" where
  "target a =
     (case currentView a of
        None \<Rightarrow> ''tasks''
      | Some v \<Rightarrow> (case view_target v of None \<Rightarrow> ''tasks'' | Some t \<Rightarrow> t))"

definition dataStore :: "'a app \<Rightarrow> 'a store option" where
  "dataStore a =
     (if target a = ''tasks'' then taskStore a
      else if target a = ''annotations'' then annotationStore a
      else None)"

definition labelingIsConfigured :: "'a app \<Rightarrow> bool" where
  "labelingIsConfigured a = (config_has_control_tags (project a) = Some True)"

text \<open>
  \<^verbatim>\<open>apiCall(methodName, params, body)\<close>, lines 453-484, in two halves around its
  \<^verbatim>\<open>yield self.API[methodName](requestParams, requestBody)\<close>. \<open>apiCall_request\<close> applies
  the transform hooks of the host (\<^verbatim>\<open>a ?? b\<close> is \<open>nullish\<close>); \<open>apiCall_resume\<close> is the
  code from the call of the transport on. The function has no \<^verbatim>\<open>try\<close>: what the call
  raises, it raises.
\<close>

definition nullish :: "'x option \<Rightarrow> 'x option \<Rightarrow> 'x option" where
  "nullish x y = (case x of Some v \<Rightarrow> Some v | None \<Rightarrow> y)"

definition apiCall_request ::
  "('p option \<Rightarrow> 'p option) option \<Rightarrow> ('b option \<Rightarrow> 'b option) option \<Rightarrow> 'p
     \<Rightarrow> 'p option \<Rightarrow> 'b option \<Rightarrow> 'p \<times> 'b option" where
  "apiCall_request transformParams transformBody emptyParams params body =
     (let requestParams =
            (case nullish (case transformParams of Some f \<Rightarrow> f params | None \<Rightarrow> None) params of
               Some p \<Rightarrow> p
             | None \<Rightarrow> emptyParams);
          requestBody = nullish (case transformBody of Some g \<Rightarrow> g body | None \<Rightarrow> None) body
      in (requestParams, requestBody))"

text \<open>
  What the call of the transport does: the transport has no function of that name, and
  the call raises before the \<^verbatim>\<open>yield\<close>; the promise is rejected, and the \<^verbatim>\<open>yield\<close>
  throws the reason; or the promise resolves, to a result object or to \<^verbatim>\<open>null\<close> or
  \<^verbatim>\<open>undefined\<close> (\<open>None\<close>), on which reading \<^verbatim>\<open>result.error\<close> raises.
\<close>

datatype 'd transport_outcome =
    NotAFunction
  | Rejects string
  | Resolves "'d api_result option"

definition apiCall_resume ::
  "string \<Rightarrow> 'd transport_outcome \<Rightarrow> 'a app
     \<Rightarrow> (js_error + 'd api_result) \<times> 'a app \<times> effect list" where
  "apiCall_resume methodName outcome a =
     (case outcome of
        NotAFunction \<Rightarrow> (Inl TypeError, a, [])
      | Rejects reason \<Rightarrow> (Inl (Thrown reason), a, [])
      | Resolves None \<Rightarrow> (Inl TypeError, a, [])
      | Resolves (Some result) \<Rightarrow>
          (if res_error result \<noteq> None \<and> res_status result \<noteq> 404
           then
             (let a1 = (case res_response result of
                          Some r \<Rightarrow>
                            a\<lparr>serverError :=
                                AList.update methodName
                                  \<lparr>err_error = ''Something went wrong'', err_response = r\<rparr>
                                  (serverError a)\<rparr>
                        | None \<Rightarrow> a)
              in (Inr result, a1,
                  [ConsoleWarn ''Error occurred when loading data'', SdkInvoke ''error'']))
           else (Inr result, a\<lparr>serverError := AList.delete methodName (serverError a)\<rparr>,
                 [])))"

text \<open>
  \<^verbatim>\<open>invokeAction(actionId, options)\<close>, lines 486-561, up to its first \<^verbatim>\<open>yield\<close>. The
  parameter bundle is a JavaScript object: keys in insertion order, \<^verbatim>\<open>delete\<close> removes a
  key, \<^verbatim>\<open>Object.assign\<close> sets the keys of the caller's body one after the other.
  \<open>labelStreamMode\<close> is \<^verbatim>\<open>localStorage.getItem("dm:labelstream:mode")\<close> and
  \<open>hasCallback\<close> says whether \<^verbatim>\<open>SDK.getAction(actionId)\<close> returned a function.
\<close>

datatype param_val =
    Ordering "string list option"
  | SelectedItems selection
  | Filters string "string list"

type_synonym action_params = "(string \<times> param_val) list"

definition empty_view :: view_info where
  "empty_view =
     \<lparr>view_id = None, view_virtual = False, view_query = None, view_target = None,
      view_tabKey = None, view_ordering = None, view_selected = None,
      view_conjunction = None, view_serializedFilters = None\<rparr>"

definition actionParams :: "string \<Rightarrow> string option \<Rightarrow> view_info \<Rightarrow> action_params" where
  "actionParams actionId labelStreamMode view =
     (let selectedItems =
            (case view_selected view of
               Some snapshot \<Rightarrow> snapshot
             | None \<Rightarrow> \<lparr>sel_all = False, sel_included = []\<rparr>);
          params =
            [(''ordering'', Ordering (view_ordering view)),
             (''selectedItems'', SelectedItems selectedItems),
             (''filters'',
                Filters (case view_conjunction view of Some c \<Rightarrow> c | None \<Rightarrow> ''and'')
                        (case view_serializedFilters view of Some f \<Rightarrow> f | None \<Rightarrow> []))]
      in if actionId = ''next_task''
         then
           (if labelStreamMode = Some ''all''
            then
              (let params1 = AList.delete ''filters'' params
               in if sel_all selectedItems = False \<and> length (sel_included selectedItems) = 0
                  then AList.delete ''ordering'' (AList.delete ''selectedItems'' params1)
                  else params1)
            else if labelStreamMode = Some ''filtered''
            then AList.delete ''selectedItems'' params
            else params)
         else params)"

definition assign :: "action_params \<Rightarrow> action_params \<Rightarrow> action_params" where
  "assign params body = foldl (\<lambda>acc (k, v). AList.update k v acc) params body"

datatype action_dispatch =
    LocalCallback action_params view_info
  | RemoteCall string "int option" action_params

definition invokeAction_begin ::
  "bool \<Rightarrow> string option \<Rightarrow> string \<Rightarrow> action_params option \<Rightarrow> 'a app
     \<Rightarrow> js_error + (effect list \<times> action_dispatch)" where
  "invokeAction_begin hasCallback labelStreamMode actionId body a =
     (let view = (case currentView a of Some v \<Rightarrow> v | None \<Rightarrow> empty_view);
          needsLock = (findIndex (\<lambda>i. i = actionId) (availableActions a) \<ge> 0)
      in if needsLock \<and> \<not> hasCallback \<and> currentView a = None
         then Inl TypeError
         else
           (let locked = (if needsLock \<and> \<not> hasCallback then [ViewLock] else []);
                params = actionParams actionId labelStreamMode view
            in if hasCallback then Inr (locked, LocalCallback params view)
               else
                 (let tabID = (if view_id view \<noteq> None \<and> \<not> view_virtual view
                               then view_id view else None);
                      params1 = (case body of Some b \<Rightarrow> assign params b | None \<Rightarrow> params)
                  in Inr (locked, RemoteCall actionId tabID params1))))"

text \<open>\<^verbatim>\<open>setMode(mode)\<close>, lines 148-150.\<close>

definition setMode :: "mode \<Rightarrow> 'a app \<Rightarrow> 'a app" where
  "setMode m a = a\<lparr>mode := m\<rparr>"

text \<open>
  Modelled from the spec: \<^verbatim>\<open>SDK.setMode\<close> is a method of the external host (sdk/dm-sdk),
  which is not among the sources. The spec has it switch the orchestrator's mode; here it
  does so through the store's own action \<open>setMode\<close>, and the call is recorded.
\<close>

definition sdk_setMode :: "mode \<Rightarrow> 'a app \<Rightarrow> 'a app \<times> effect list" where
  "sdk_setMode m a = (setMode m a, [SdkSetMode m])"

text \<open>\<^verbatim>\<open>confirmLabelingConfigured()\<close>, lines 292-307.\<close>

definition confirmLabelingConfigured :: "'a app \<Rightarrow> bool \<times> effect list" where
  "confirmLabelingConfigured a =
     (if \<not> labelingIsConfigured a then (False, [ModalConfirm]) else (True, []))"

text \<open>
  \<^verbatim>\<open>unsetTask(options)\<close>, lines 219-230. A store that was released is \<open>None\<close>: the call
  on it raises inside the \<^verbatim>\<open>try\<close> block, which ends the block there.
\<close>

definition unsetTask :: "bool option \<Rightarrow> 'a app \<Rightarrow> 'a app \<times> effect list" where
  "unsetTask pushState a =
     (let a1 = (case annotationStore a of
                  None \<Rightarrow> a
                | Some an \<Rightarrow>
                    (let a' = a\<lparr>annotationStore := Some (unset False an)\<rparr>
                     in case taskStore a' of
                          None \<Rightarrow> a'
                        | Some ts \<Rightarrow> a'\<lparr>taskStore := Some (unset False ts)\<rparr>))
      in (a1, if pushState \<noteq> Some False then [HistoryNavigate None None] else []))"

text \<open>
  \<^verbatim>\<open>closeLabeling(options)\<close>, lines 309-331. \<open>tabFromURL\<close> is
  \<^verbatim>\<open>History.getParams().tab\<close>.
\<close>

definition closeLabeling :: "string option \<Rightarrow> bool option \<Rightarrow> 'a app \<Rightarrow> 'a app \<times> effect list" where
  "closeLabeling tabFromURL pushState a =
     (let (a1, e1) = unsetTask pushState a;
          viewId = (case currentView a1 of
                      Some v \<Rightarrow> view_tabKey v
                    | None \<Rightarrow>
                        (case tabFromURL of
                           Some t \<Rightarrow> Some t
                         | None \<Rightarrow> (case views a1 of [] \<Rightarrow> None | v # _ \<Rightarrow> view_tabKey v)));
          e2 = (case viewId of Some k \<Rightarrow> [HistoryForceNavigate k] | None \<Rightarrow> []);
          (a2, e3) = sdk_setMode explorer a1
      in (a2, e1 @ e2 @ e3 @ [SdkDestroyLSF]))"

text \<open>
  \<^verbatim>\<open>startLabeling(item, options = {})\<close>, lines 263-290. The argument is an Item of the
  active data store or the plain object built by \<^verbatim>\<open>handlePopState\<close>; of it the function
  reads \<^verbatim>\<open>id\<close>, \<^verbatim>\<open>task_id\<close> and \<^verbatim>\<open>isSelected\<close>. The call of the flow \<^verbatim>\<open>setTask\<close>
  is recorded with its parameters.
\<close>

record labeling_item =
  li_id :: int
  li_task_id :: "int option"
  li_isSelected :: bool

definition startLabeling ::
  "string option \<Rightarrow> labeling_item option \<Rightarrow> bool option \<Rightarrow> 'a app
     \<Rightarrow> js_error + ('a app \<times> effect list)" where
  "startLabeling tabFromURL item pushState a =
     (let (configured, e0) = confirmLabelingConfigured a
      in if \<not> configured then Inr (a, e0)
         else
           (case dataStore a of
              None \<Rightarrow> Inl TypeError
            | Some ds \<Rightarrow>
                if loadingItem ds then Inr (a, e0)
                else
                  (let (a1, e1) = sdk_setMode labeling a
                   in case item of
                        Some it \<Rightarrow>
                          if \<not> li_isSelected it
                          then
                            (let labelingParams =
                                   (case li_task_id it of
                                      Some task \<Rightarrow>
                                        \<lparr>st_taskID = Some task, st_annotationID = Some (li_id it),
                                         st_pushState = pushState\<rparr>
                                    | None \<Rightarrow>
                                        \<lparr>st_taskID = Some (li_id it), st_annotationID = None,
                                         st_pushState = pushState\<rparr>)
                             in Inr (a1, e0 @ e1 @ [CallSetTask labelingParams]))
                          else
                            (let (a2, e2) = closeLabeling tabFromURL None a1
                             in Inr (a2, e0 @ e1 @ e2))
                      | None \<Rightarrow>
                          (let (a2, e2) = closeLabeling tabFromURL None a1
                           in Inr (a2, e0 @ e1 @ e2)))))"

section \<open>Auxiliary definitions for the proofs\<close>

text \<open>Removing the first element that satisfies a predicate: what \<open>findIndex\<close> followed
  by \<open>splice1\<close> computes.\<close>

fun drop_first :: "('a \<Rightarrow> bool) \<Rightarrow> 'a list \<Rightarrow> 'a list" where
  "drop_first P [] = []"
| "drop_first P (x # xs) = (if P x then xs else x # drop_first P xs)"

text \<open>Concrete values for the examples: an Item with one text field and no \<open>source\<close>, a
  raw record, and a freshly created store holding a given list.\<close>

definition mk_item :: "int \<Rightarrow> string \<Rightarrow> string item" where
  "mk_item n v = \<lparr>item_id = n, item_fields = v, source = None\<rparr>"

definition mk_raw :: "int \<Rightarrow> string \<Rightarrow> string raw" where
  "mk_raw n v = \<lparr>raw_id = n, raw_fields = v\<rparr>"

definition mk_store :: "string item list \<Rightarrow> string store" where
  "mk_store l =
     \<lparr>page = 0, pageSize = 30, total_cnt = 0, loading = False, loadingItem = False,
      loadingItems = [], updated = ''u0'', list_items = l, selectedId = None,
      highlightedId = None, requestId = None\<rparr>"

text \<open>The options of \<^verbatim>\<open>fetch({})\<close>, a view with a numeric id, and an orchestrator as
  created, with labeling configured and both data stores present.\<close>

definition default_opts :: fetch_opts where
  "default_opts =
     \<lparr>opt_id = None, opt_query = None, opt_pageNumber = None, opt_reload = False,
      opt_interaction = None, opt_pageSize = None\<rparr>"

definition mk_view :: "int \<Rightarrow> view_info" where
  "mk_view n = empty_view\<lparr>view_id := Some n, view_tabKey := Some ''tab''\<rparr>"

definition mk_app :: "string store \<Rightarrow> string app" where
  "mk_app ts =
     \<lparr>mode = explorer, currentView = Some (mk_view 1), views = [mk_view 1],
      project = \<lparr>config_has_control_tags = Some True\<rparr>, loadingData = False,
      taskStore = Some ts, annotationStore = Some (mk_store []),
      availableActions = [], serverError = [], crashed = False\<rparr>"

section \<open>Facts about \<open>findIndex\<close> and the removal loop of \<open>setList\<close>\<close>

lemma findIndex_neg_iff: "(findIndex P xs < 0) = (\<forall>x\<in>set xs. \<not> P x)"
  by (induction xs) (auto simp: Let_def)

lemma findIndex_never: "findIndex (\<lambda>_. False) xs = - 1"
  by (induction xs) (auto simp: Let_def)

lemma findIndex_bound: "0 \<le> findIndex P xs \<Longrightarrow> nat (findIndex P xs) < length xs"
  by (induction xs) (auto simp: Let_def split: if_splits)

lemma splice1_findIndex:
  "0 \<le> findIndex P xs \<Longrightarrow> splice1 (nat (findIndex P xs)) xs = drop_first P xs"
  by (induction xs) (auto simp: Let_def splice1_def nat_add_distrib split: if_splits)

lemma drop_first_none: "\<forall>x\<in>set xs. \<not> P x \<Longrightarrow> drop_first P xs = xs"
  by (induction xs) auto

lemma remove_existing_drop_first:
  "remove_existing lst n = drop_first (\<lambda>i. item_id i = item_id n) lst"
proof (cases "0 \<le> findIndex (\<lambda>i. item_id i = item_id n) lst")
  case True
  then show ?thesis by (simp add: remove_existing_def splice1_findIndex)
next
  case False
  then have "findIndex (\<lambda>i. item_id i = item_id n) lst < 0" by simp
  then have "\<forall>x\<in>set lst. \<not> item_id x = item_id n" by (simp add: findIndex_neg_iff)
  then show ?thesis using False by (simp add: remove_existing_def drop_first_none)
qed

lemma drop_first_distinct:
  "distinct (map f xs) \<Longrightarrow> drop_first (\<lambda>i. f i = k) xs = filter (\<lambda>i. f i \<noteq> k) xs"
proof (induction xs)
  case Nil
  then show ?case by simp
next
  case (Cons x xs)
  show ?case
  proof (cases "f x = k")
    case True
    with Cons.prems have "\<forall>y\<in>set xs. f y \<noteq> k" by (auto simp: image_iff)
    then have "filter (\<lambda>i. f i \<noteq> k) xs = xs" by (simp add: filter_id_conv)
    with True show ?thesis by simp
  next
    case False
    with Cons show ?thesis by simp
  qed
qed

lemma foldl_remove_existing:
  "distinct (map item_id xs) \<Longrightarrow>
   foldl remove_existing xs ns = filter (\<lambda>i. item_id i \<notin> item_id ` set ns) xs"
proof (induction ns arbitrary: xs)
  case Nil
  then show ?case by simp
next
  case (Cons n ns)
  have step: "remove_existing xs n = filter (\<lambda>i. item_id i \<noteq> item_id n) xs"
    using Cons.prems by (simp add: remove_existing_drop_first drop_first_distinct)
  have "distinct (map item_id (filter (\<lambda>i. item_id i \<noteq> item_id n) xs))"
    using Cons.prems by (simp add: distinct_map_filter)
  then show ?case
    using Cons.IH [of "filter (\<lambda>i. item_id i \<noteq> item_id n) xs"] step
    by (auto intro: filter_cong)
qed

section \<open>\<open>clear\<close>\<close>

text \<open>
  Claim C10. For every store, \<open>clear\<close> resets exactly \<open>highlightedId\<close>, the list, \<open>page\<close>
  and \<open>total\<close>: every other field, \<open>selectedId\<close> and \<open>pageSize\<close> among them, keeps its
  value. The selection id therefore survives while the list is empty, and the view
  \<open>selected\<close> resolves to \<^verbatim>\<open>undefined\<close>.
\<close>

theorem clear_keeps_selectedId:
  "clear s = s\<lparr>highlightedId := None, list_items := [], page := 0, total_cnt := 0\<rparr>
   \<and> selectedId (clear s) = selectedId s
   \<and> pageSize (clear s) = pageSize s
   \<and> list_items (clear s) = []
   \<and> selected (clear s) = None"
  by (simp add: clear_def set_highlighted_def selected_def)

theorem clear_keeps_selectedId_witness:
  "selected ((mk_store [mk_item 2 ''b''])\<lparr>selectedId := Some 2\<rparr>) = Some (mk_item 2 ''b'')
   \<and> selectedId (clear ((mk_store [mk_item 2 ''b''])\<lparr>selectedId := Some 2\<rparr>)) = Some 2
   \<and> selected (clear ((mk_store [mk_item 2 ''b''])\<lparr>selectedId := Some 2\<rparr>)) = None"
  using clear_keeps_selectedId [of "(mk_store [mk_item 2 ''b''])\<lparr>selectedId := Some 2\<rparr>"]
  by (simp add: mk_store_def mk_item_def selected_def)

section \<open>\<open>setList\<close>: the merge\<close>

lemma setList_list_reload:
  "list_items (setList stringify lst tot True s) = map (wrap_record stringify) lst"
  by (simp add: setList_def Let_def)

lemma setList_list_append:
  "distinct (map item_id (list_items s)) \<Longrightarrow>
   list_items (setList stringify lst tot False s) =
     filter (\<lambda>i. item_id i \<notin> raw_id ` set lst) (list_items s) @ map (wrap_record stringify) lst"
proof -
  assume d: "distinct (map item_id (list_items s))"
  have ids: "item_id ` set (map (wrap_record stringify) lst) = raw_id ` set lst"
    by (auto simp: wrap_record_def image_iff)
  show ?thesis
    using foldl_remove_existing [OF d, of "map (wrap_record stringify) lst"] ids
    by (simp add: setList_def Let_def)
qed

lemma setList_frame:
  "total_cnt (setList stringify lst tot reload s) = tot
   \<and> (setList stringify lst tot reload s)\<lparr>total_cnt := total_cnt s, list_items := list_items s\<rparr> = s"
  by (simp add: setList_def Let_def)

text \<open>
  Claim C2, as amended. For every store, incoming record list, total and reload flag,
  \<open>setList\<close> sets \<open>total\<close> and changes no field but \<open>total\<close> and the list. With reload
  the list becomes the incoming records in server order, each wrapped as an Item whose
  \<open>source\<close> is its serialised snapshot. Without reload, and when the existing list holds
  no two Items with the same id, every existing Item whose id is the id of an incoming
  record is removed and the wrapped incoming records are appended at the end.
\<close>

theorem setList_merge:
  "total_cnt (setList stringify lst tot reload s) = tot
   \<and> (setList stringify lst tot reload s)\<lparr>total_cnt := total_cnt s, list_items := list_items s\<rparr> = s
   \<and> (reload \<longrightarrow>
        list_items (setList stringify lst tot reload s) =
          map (\<lambda>t. \<lparr>item_id = raw_id t, item_fields = raw_fields t,
                      source = Some (stringify t)\<rparr>) lst)
   \<and> (\<not> reload \<and> distinct (map item_id (list_items s)) \<longrightarrow>
        list_items (setList stringify lst tot reload s) =
          filter (\<lambda>i. item_id i \<notin> raw_id ` set lst) (list_items s)
          @ map (\<lambda>t. \<lparr>item_id = raw_id t, item_fields = raw_fields t,
                        source = Some (stringify t)\<rparr>) lst)"
proof -
  have w: "wrap_record stringify =
      (\<lambda>t. \<lparr>item_id = raw_id t, item_fields = raw_fields t, source = Some (stringify t)\<rparr>)"
    by (rule ext) (simp add: wrap_record_def)
  show ?thesis
    using setList_frame [of stringify lst tot reload s]
      setList_list_reload [of stringify lst tot s]
      setList_list_append [of s stringify lst tot]
    by (cases reload) (simp_all add: w)
qed

text \<open>The theorem at the example of the specification: merging \<^verbatim>\<open>[{id:2, v:"new"}]\<close> into
  \<^verbatim>\<open>[{id:1}, {id:2}]\<close> without reload gives \<^verbatim>\<open>[{id:1}, {id:2, v:"new"}]\<close>, and a reload
  with \<^verbatim>\<open>[{id:5}]\<close> replaces the list.\<close>

theorem setList_merge_witness:
  "distinct (map item_id (list_items (mk_store [mk_item 1 [], mk_item 2 []])))
   \<and> list_items (setList raw_fields [mk_raw 2 ''new''] 2 False
        (mk_store [mk_item 1 [], mk_item 2 []])) =
       [mk_item 1 [], \<lparr>item_id = 2, item_fields = ''new'', source = Some ''new''\<rparr>]
   \<and> total_cnt (setList raw_fields [mk_raw 2 ''new''] 2 False
        (mk_store [mk_item 1 [], mk_item 2 []])) = 2
   \<and> list_items (setList raw_fields [mk_raw 5 ''e''] 1 True
        (mk_store [mk_item 1 [], mk_item 2 []])) =
       [\<lparr>item_id = 5, item_fields = ''e'', source = Some ''e''\<rparr>]"
  using setList_merge [of raw_fields "[mk_raw 2 ''new'']" 2 False "mk_store [mk_item 1 [], mk_item 2 []]"]
    setList_merge [of raw_fields "[mk_raw 5 ''e'']" 1 True "mk_store [mk_item 1 [], mk_item 2 []]"]
  by (simp add: mk_store_def mk_item_def mk_raw_def)

text \<open>
  Claim C2 as stated speaks of every existing list. The loop removes one Item, the first
  with that id, for each incoming record: a list that already holds the id twice (built
  here by a first merge of two records with id 1) keeps its second Item with id 1 when
  one more record with id 1 is merged.
\<close>

theorem setList_duplicate_existing_counterexample:
  "list_items (setList raw_fields [mk_raw 1 ''a'', mk_raw 1 ''b''] 2 False (mk_store [])) =
     [\<lparr>item_id = 1, item_fields = ''a'', source = Some ''a''\<rparr>,
      \<lparr>item_id = 1, item_fields = ''b'', source = Some ''b''\<rparr>]
   \<and> list_items (setList raw_fields [mk_raw 1 ''c''] 1 False
        (setList raw_fields [mk_raw 1 ''a'', mk_raw 1 ''b''] 2 False (mk_store []))) =
       [\<lparr>item_id = 1, item_fields = ''b'', source = Some ''b''\<rparr>,
        \<lparr>item_id = 1, item_fields = ''c'', source = Some ''c''\<rparr>]
   \<and> list_items (setList raw_fields [mk_raw 1 ''c''] 1 False
        (setList raw_fields [mk_raw 1 ''a'', mk_raw 1 ''b''] 2 False (mk_store []))) \<noteq>
       filter (\<lambda>i. item_id i \<notin> raw_id ` set [mk_raw 1 ''c''])
         (list_items (setList raw_fields [mk_raw 1 ''a'', mk_raw 1 ''b''] 2 False (mk_store [])))
       @ map (wrap_record raw_fields) [mk_raw 1 ''c'']"
  by (simp add: setList_def Let_def remove_existing_def splice1_def wrap_record_def
      mk_store_def mk_raw_def)

section \<open>The list holds no two Items with the same id\<close>

lemma setList_distinct:
  assumes "distinct (map item_id (list_items s))" and "distinct (map raw_id lst)"
  shows "distinct (map item_id (list_items (setList stringify lst tot reload s)))"
proof -
  have ids: "map item_id (map (wrap_record stringify) lst) = map raw_id lst"
    by (simp add: wrap_record_def)
  show ?thesis
  proof (cases reload)
    case True
    then show ?thesis using assms(2) ids by (simp add: setList_list_reload del: map_map)
  next
    case False
    have "distinct (map item_id (filter (\<lambda>i. item_id i \<notin> raw_id ` set lst) (list_items s)))"
      using assms(1) by (simp add: distinct_map_filter)
    then show ?thesis
      using False assms ids by (auto simp: setList_list_append simp del: map_map)
  qed
qed

lemma updateItem_distinct:
  assumes "distinct (map item_id (list_items s))"
    and "\<forall>i. item_id (update patch i) = item_id i"
    and "item_id (create patch) = itemID"
  shows "distinct (map item_id (list_items (fst (updateItem update create itemID patch s))))"
proof (cases "0 \<le> findIndex (\<lambda>t. item_id t = itemID) (list_items s)")
  case True
  let ?k = "nat (findIndex (\<lambda>t. item_id t = itemID) (list_items s))"
  have k: "?k < length (list_items s)" using True by (rule findIndex_bound)
  have "map item_id ((list_items s)[?k := update patch (list_items s ! ?k)]) = map item_id (list_items s)"
    using k assms(2) by (auto simp: list_eq_iff_nth_eq nth_list_update)
  then show ?thesis using True assms(1) by (simp add: updateItem_def Let_def)
next
  case False
  then have "findIndex (\<lambda>t. item_id t = itemID) (list_items s) < 0" by simp
  then have "\<forall>x\<in>set (list_items s). item_id x \<noteq> itemID" by (simp add: findIndex_neg_iff)
  then have "itemID \<notin> item_id ` set (list_items s)" by auto
  then show ?thesis using False assms(1,3) by (simp add: updateItem_def Let_def)
qed

lemma fetch_begin_list: "list_items (fst (fetch_begin cv guid opts s)) = list_items s"
  by (simp add: fetch_begin_def Let_def split: prod.splits option.splits)

lemma fetch_resume_distinct:
  assumes "distinct (map item_id (list_items s))"
    and "\<forall>l. resp_list data = Some l \<longrightarrow> distinct (map raw_id l)"
    and "\<forall>h. postProcessData = Some h \<longrightarrow>
           (\<forall>d st. distinct (map item_id (list_items st)) \<longrightarrow>
                    distinct (map item_id (list_items (h d st))))"
  shows "distinct (map item_id (list_items (fst (fetch_resume stringify postProcessData pf data s))))"
proof (cases "Some (pf_requestId pf) = requestId s")
  case False
  then show ?thesis using assms(1) by (simp add: fetch_resume_def)
next
  case True
  have keep: "\<And>st. distinct (map item_id (list_items st)) \<Longrightarrow>
      distinct (map item_id (list_items
        (case postProcessData of Some hook \<Rightarrow> hook data st | None \<Rightarrow> st)))"
    using assms(3) by (auto split: option.splits)
  have d1: "distinct (map item_id (list_items (case resp_list data of
       Some lst \<Rightarrow> setList stringify lst (resp_total data) (pf_reload pf \<or> pf_pageNumber pf \<noteq> None) s
     | None \<Rightarrow> s)))"
    using assms(1,2) by (auto simp: setList_distinct split: option.splits)
  then have d2: "distinct (map item_id (list_items (set_highlighted Null (case resp_list data of
       Some lst \<Rightarrow> setList stringify lst (resp_total data) (pf_reload pf \<or> pf_pageNumber pf \<noteq> None) s
     | None \<Rightarrow> s))))"
    by (simp add: set_highlighted_def)
  show ?thesis
    using True keep [OF d1] keep [OF d2] by (simp add: fetch_resume_def Let_def)
qed

lemma clear_list: "list_items (clear s) = []"
  by (simp add: clear_def)

text \<open>
  Claim C9, as amended. On a list without duplicate ids: \<open>setList\<close> keeps the list free of
  duplicate ids when the incoming records have pairwise distinct ids; \<open>updateItem\<close> does
  when the item type's \<open>update\<close> leaves the id of an Item alone and its \<open>create\<close> gives
  the new Item the requested id; the first half of \<open>fetch\<close> does; the second half of
  \<open>fetch\<close> does when the records of the response have pairwise distinct ids and the
  post-processing hook, if there is one, keeps a duplicate-free list duplicate-free;
  \<open>clear\<close> does.
\<close>

theorem list_ids_stay_distinct:
  assumes "distinct (map item_id (list_items s))"
  shows
    "(distinct (map raw_id lst) \<longrightarrow>
        distinct (map item_id (list_items (setList stringify lst tot reload s))))
     \<and> ((\<forall>i. item_id (update patch i) = item_id i) \<and> item_id (create patch) = itemID \<longrightarrow>
        distinct (map item_id (list_items (fst (updateItem update create itemID patch s)))))
     \<and> distinct (map item_id (list_items (fst (fetch_begin cv guid opts s))))
     \<and> ((\<forall>l. resp_list data = Some l \<longrightarrow> distinct (map raw_id l))
         \<and> (\<forall>h. postProcessData = Some h \<longrightarrow>
               (\<forall>d st. distinct (map item_id (list_items st)) \<longrightarrow>
                        distinct (map item_id (list_items (h d st))))) \<longrightarrow>
        distinct (map item_id
          (list_items (fst (fetch_resume stringify postProcessData pf data s)))))
     \<and> distinct (map item_id (list_items (clear s)))"
  using assms setList_distinct [of s lst stringify tot reload]
    updateItem_distinct [of s update patch create itemID]
    fetch_resume_distinct [of s data postProcessData stringify pf]
  by (simp add: fetch_begin_list clear_list)

theorem list_ids_stay_distinct_witness:
  "distinct (map item_id (list_items ((mk_store [mk_item 1 [], mk_item 2 []])\<lparr>requestId := Some ''g0''\<rparr>)))
   \<and> distinct (map item_id (list_items
        (setList raw_fields [mk_raw 2 ''n'', mk_raw 3 ''m''] 3 False
           ((mk_store [mk_item 1 [], mk_item 2 []])\<lparr>requestId := Some ''g0''\<rparr>))))
   \<and> distinct (map item_id (list_items (fst
        (updateItem (\<lambda>p i. i\<lparr>item_fields := p\<rparr>) (\<lambda>p. mk_item 7 p) 7 ''x''
           ((mk_store [mk_item 1 [], mk_item 2 []])\<lparr>requestId := Some ''g0''\<rparr>)))))
   \<and> distinct (map item_id (list_items (fst
        (fetch_begin (Some (mk_view 1)) ''g1'' default_opts
           ((mk_store [mk_item 1 [], mk_item 2 []])\<lparr>requestId := Some ''g0''\<rparr>)))))
   \<and> distinct (map item_id (list_items (fst
        (fetch_resume raw_fields None
           \<lparr>pf_requestId = ''g0'', pf_reload = False, pf_pageNumber = None,
            pf_params = \<lparr>p_page = 1, p_page_size = 30, p_query = None, p_view = Some 1,
                         p_interaction = None\<rparr>\<rparr>
           \<lparr>resp_total = 3, resp_list = Some [mk_raw 2 ''n'', mk_raw 3 ''m'']\<rparr>
           ((mk_store [mk_item 1 [], mk_item 2 []])\<lparr>requestId := Some ''g0''\<rparr>)))))
   \<and> distinct (map item_id (list_items
        (clear ((mk_store [mk_item 1 [], mk_item 2 []])\<lparr>requestId := Some ''g0''\<rparr>))))"
  using list_ids_stay_distinct
    [where s = "(mk_store [mk_item 1 [], mk_item 2 []])\<lparr>requestId := Some ''g0''\<rparr>"
       and lst = "[mk_raw 2 ''n'', mk_raw 3 ''m'']" and stringify = raw_fields and tot = 3
       and reload = False and update = "\<lambda>p i. i\<lparr>item_fields := p\<rparr>"
       and create = "\<lambda>p. mk_item 7 p" and itemID = 7 and patch = "''x''"
       and cv = "Some (mk_view 1)" and guid = "''g1''" and opts = default_opts
       and postProcessData = None
       and pf = "\<lparr>pf_requestId = ''g0'', pf_reload = False, pf_pageNumber = None,
            pf_params = \<lparr>p_page = 1, p_page_size = 30, p_query = None, p_view = Some 1,
                         p_interaction = None\<rparr>\<rparr>"
       and data = "\<lparr>resp_total = 3, resp_list = Some [mk_raw 2 ''n'', mk_raw 3 ''m'']\<rparr>"]
  by (simp add: mk_store_def mk_item_def mk_raw_def)

text \<open>
  Claim C9 as stated covers \<open>setList\<close> with any incoming record list. The incoming records
  are not compared with each other: two records with id 1, merged into the empty list,
  are both appended.
\<close>

theorem setList_duplicate_incoming_counterexample:
  "distinct (map item_id (list_items (mk_store [])))
   \<and> \<not> distinct (map item_id (list_items
          (setList raw_fields [mk_raw 1 ''a'', mk_raw 1 ''b''] 2 False (mk_store []))))"
  by (simp add: setList_def Let_def remove_existing_def wrap_record_def mk_store_def mk_raw_def)

section \<open>\<open>fetch\<close>: the request token\<close>

lemma fetch_begin_requestId: "requestId (fst (fetch_begin cv guid opts s)) = Some guid"
  by (simp add: fetch_begin_def Let_def split: prod.splits option.splits)

lemma fetch_begin_pending:
  "fetch_begin cv guid opts s = (s1, Some pf) \<Longrightarrow> pf_requestId pf = guid"
  by (auto simp: fetch_begin_def Let_def split: prod.splits option.splits if_splits)

lemma setList_requestId: "requestId (setList stringify lst tot reload s) = requestId s"
  by (simp add: setList_def Let_def)

lemma fetch_resume_requestId:
  assumes "\<forall>h. hook = Some h \<longrightarrow> (\<forall>d st. requestId (h d st) = requestId st)"
  shows "requestId (fst (fetch_resume stringify hook pf data s)) = requestId s"
proof (cases "Some (pf_requestId pf) = requestId s")
  case False
  then show ?thesis by (simp add: fetch_resume_def)
next
  case True
  have keep: "\<And>st. requestId (case hook of Some h \<Rightarrow> h data st | None \<Rightarrow> st) = requestId st"
    using assms by (auto split: option.splits)
  show ?thesis
    using True
    by (simp add: fetch_resume_def Let_def keep set_highlighted_def setList_requestId
        split: option.splits)
qed

lemma fetch_run_snoc:
  "fetch_run stringify hook (evs @ [e]) s = fetch_step stringify hook (fetch_run stringify hook evs s) e"
  by (simp add: fetch_run_def)

lemma fetch_run_requestId:
  assumes "\<forall>h. hook = Some h \<longrightarrow> (\<forall>d st. requestId (h d st) = requestId st)"
    and "\<forall>c. BeginFetch c \<in> set evs \<longrightarrow> fc_guid c \<noteq> guid"
    and "\<exists>c. BeginFetch c \<in> set evs"
  shows "requestId (fetch_run stringify hook evs s) \<noteq> Some guid"
  using assms(2,3)
proof (induction evs rule: rev_induct)
  case Nil
  then show ?case by simp
next
  case (snoc e evs)
  show ?case
  proof (cases e)
    case (BeginFetch c)
    with snoc.prems(1) have "fc_guid c \<noteq> guid" by simp
    then show ?thesis
      by (simp add: BeginFetch fetch_run_snoc fetch_step_def fetch_begin_requestId)
  next
    case (ResumeFetch pf d)
    with snoc.prems have "\<exists>c. BeginFetch c \<in> set evs" by auto
    moreover from snoc.prems(1) have "\<forall>c. BeginFetch c \<in> set evs \<longrightarrow> fc_guid c \<noteq> guid" by simp
    ultimately have "requestId (fetch_run stringify hook evs s) \<noteq> Some guid"
      by (rule snoc.IH [rotated])
    then show ?thesis
      by (simp add: ResumeFetch fetch_run_snoc fetch_step_def fetch_resume_requestId [OF assms(1)])
  qed
qed

lemma fetch_resume_stale:
  "requestId s \<noteq> Some (pf_requestId pf) \<Longrightarrow>
   fetch_resume stringify hook pf data s =
     (s, [ConsoleLog (''Request '' @ pf_requestId pf @ '' was cancelled by another request'')])"
  by (auto simp: fetch_resume_def)

text \<open>
  Claim C1. A response is handled by \<open>fetch_resume\<close> on the state the store has when it
  arrives. If the token minted by its \<open>fetch\<close> is not the store's \<open>requestId\<close> at that
  moment, the store is left exactly as it is and the only effect is the console message:
  no notification of the host, no error. Hence a response that changes the list, the
  total or the highlight carries the token that \<open>requestId\<close> holds. And for every run of
  overlapping calls: once a \<open>fetch\<close> is suspended, let any sequence of later \<open>fetch\<close>
  calls and of arriving responses of other calls follow, with at least one later call,
  every later call minting a token different from its own, and a post-processing hook
  (if any) that leaves \<open>requestId\<close> alone; then its response is such a discarded one.
\<close>

theorem fetch_stale_response_discarded:
  "(requestId s \<noteq> Some (pf_requestId pf) \<longrightarrow>
      fst (fetch_resume stringify hook pf data s) = s
      \<and> snd (fetch_resume stringify hook pf data s) =
          [ConsoleLog (''Request '' @ pf_requestId pf @ '' was cancelled by another request'')]
      \<and> SdkInvoke ''error'' \<notin> set (snd (fetch_resume stringify hook pf data s)))
   \<and> (list_items (fst (fetch_resume stringify hook pf data s)) \<noteq> list_items s
       \<or> total_cnt (fst (fetch_resume stringify hook pf data s)) \<noteq> total_cnt s
       \<or> highlightedId (fst (fetch_resume stringify hook pf data s)) \<noteq> highlightedId s \<longrightarrow>
      requestId s = Some (pf_requestId pf))
   \<and> (fetch_begin cv guid opts s0 = (s1, Some pf)
       \<and> (\<exists>c. BeginFetch c \<in> set evs)
       \<and> (\<forall>c. BeginFetch c \<in> set evs \<longrightarrow> fc_guid c \<noteq> guid)
       \<and> (\<forall>h. hook = Some h \<longrightarrow> (\<forall>d st. requestId (h d st) = requestId st)) \<longrightarrow>
      fetch_resume stringify hook pf data (fetch_run stringify hook evs s1) =
        (fetch_run stringify hook evs s1,
         [ConsoleLog (''Request '' @ pf_requestId pf @ '' was cancelled by another request'')]))"
proof (intro conjI impI)
  assume "requestId s \<noteq> Some (pf_requestId pf)"
  then show "fst (fetch_resume stringify hook pf data s) = s"
    and "snd (fetch_resume stringify hook pf data s) =
          [ConsoleLog (''Request '' @ pf_requestId pf @ '' was cancelled by another request'')]"
    and "SdkInvoke ''error'' \<notin> set (snd (fetch_resume stringify hook pf data s))"
    by (simp_all add: fetch_resume_stale)
next
  assume changed: "list_items (fst (fetch_resume stringify hook pf data s)) \<noteq> list_items s
       \<or> total_cnt (fst (fetch_resume stringify hook pf data s)) \<noteq> total_cnt s
       \<or> highlightedId (fst (fetch_resume stringify hook pf data s)) \<noteq> highlightedId s"
  show "requestId s = Some (pf_requestId pf)"
  proof (rule ccontr)
    assume "requestId s \<noteq> Some (pf_requestId pf)"
    then have "fst (fetch_resume stringify hook pf data s) = s"
      by (simp add: fetch_resume_stale)
    with changed show False by simp
  qed
next
  assume a: "fetch_begin cv guid opts s0 = (s1, Some pf)
       \<and> (\<exists>c. BeginFetch c \<in> set evs)
       \<and> (\<forall>c. BeginFetch c \<in> set evs \<longrightarrow> fc_guid c \<noteq> guid)
       \<and> (\<forall>h. hook = Some h \<longrightarrow> (\<forall>d st. requestId (h d st) = requestId st))"
  then have g: "pf_requestId pf = guid" by (blast dest: fetch_begin_pending)
  from a have "requestId (fetch_run stringify hook evs s1) \<noteq> Some guid"
    by (intro fetch_run_requestId) blast+
  with g have "requestId (fetch_run stringify hook evs s1) \<noteq> Some (pf_requestId pf)"
    by simp
  then show "fetch_resume stringify hook pf data (fetch_run stringify hook evs s1) =
        (fetch_run stringify hook evs s1,
         [ConsoleLog (''Request '' @ pf_requestId pf @ '' was cancelled by another request'')])"
    by (rule fetch_resume_stale)
qed

text \<open>The theorem on two overlapping calls: the first mints \<open>g1\<close>, the second \<open>g2\<close>; the
  response of the second arrives and is merged; the response of the first arrives last
  and is discarded.\<close>

theorem fetch_stale_response_discarded_witness:
  "fetch_begin (Some (mk_view 1)) ''g1'' default_opts (mk_store [mk_item 1 []]) =
     ((mk_store [mk_item 1 []])\<lparr>page := 1, loading := True, requestId := Some ''g1''\<rparr>,
      Some \<lparr>pf_requestId = ''g1'', pf_reload = False, pf_pageNumber = None,
            pf_params = \<lparr>p_page = 1, p_page_size = 30, p_query = None, p_view = Some 1,
                         p_interaction = None\<rparr>\<rparr>)
   \<and> fetch_run raw_fields None
        [BeginFetch \<lparr>fc_view = Some (mk_view 1), fc_guid = ''g2'', fc_opts = default_opts\<rparr>,
         ResumeFetch
           \<lparr>pf_requestId = ''g2'', pf_reload = False, pf_pageNumber = None,
            pf_params = \<lparr>p_page = 2, p_page_size = 30, p_query = None, p_view = Some 1,
                         p_interaction = None\<rparr>\<rparr>
           \<lparr>resp_total = 2, resp_list = Some [mk_raw 2 ''b'']\<rparr>]
        ((mk_store [mk_item 1 []])\<lparr>page := 1, loading := True, requestId := Some ''g1''\<rparr>) =
       (mk_store [mk_item 1 [], \<lparr>item_id = 2, item_fields = ''b'', source = Some ''b''\<rparr>])
         \<lparr>page := 2, total_cnt := 2, requestId := Some ''g2''\<rparr>
   \<and> fetch_resume raw_fields None
        \<lparr>pf_requestId = ''g1'', pf_reload = False, pf_pageNumber = None,
         pf_params = \<lparr>p_page = 1, p_page_size = 30, p_query = None, p_view = Some 1,
                      p_interaction = None\<rparr>\<rparr>
        \<lparr>resp_total = 1, resp_list = Some [mk_raw 9 ''z'']\<rparr>
        ((mk_store [mk_item 1 [], \<lparr>item_id = 2, item_fields = ''b'', source = Some ''b''\<rparr>])
           \<lparr>page := 2, total_cnt := 2, requestId := Some ''g2''\<rparr>) =
       ((mk_store [mk_item 1 [], \<lparr>item_id = 2, item_fields = ''b'', source = Some ''b''\<rparr>])
          \<lparr>page := 2, total_cnt := 2, requestId := Some ''g2''\<rparr>,
        [ConsoleLog ''Request g1 was cancelled by another request''])"
proof -
  have run: "fetch_run raw_fields None
        [BeginFetch \<lparr>fc_view = Some (mk_view 1), fc_guid = ''g2'', fc_opts = default_opts\<rparr>,
         ResumeFetch
           \<lparr>pf_requestId = ''g2'', pf_reload = False, pf_pageNumber = None,
            pf_params = \<lparr>p_page = 2, p_page_size = 30, p_query = None, p_view = Some 1,
                         p_interaction = None\<rparr>\<rparr>
           \<lparr>resp_total = 2, resp_list = Some [mk_raw 2 ''b'']\<rparr>]
        ((mk_store [mk_item 1 []])\<lparr>page := 1, loading := True, requestId := Some ''g1''\<rparr>) =
       (mk_store [mk_item 1 [], \<lparr>item_id = 2, item_fields = ''b'', source = Some ''b''\<rparr>])
         \<lparr>page := 2, total_cnt := 2, requestId := Some ''g2''\<rparr>"
    by (simp add: fetch_run_def fetch_step_def fetch_begin_def fetch_resume_def Let_def
        mk_store_def mk_view_def mk_item_def mk_raw_def empty_view_def default_opts_def
        highlighted_def setList_def remove_existing_def wrap_record_def)
  have start: "fetch_begin (Some (mk_view 1)) ''g1'' default_opts (mk_store [mk_item 1 []]) =
     ((mk_store [mk_item 1 []])\<lparr>page := 1, loading := True, requestId := Some ''g1''\<rparr>,
      Some \<lparr>pf_requestId = ''g1'', pf_reload = False, pf_pageNumber = None,
            pf_params = \<lparr>p_page = 1, p_page_size = 30, p_query = None, p_view = Some 1,
                         p_interaction = None\<rparr>\<rparr>)"
    by (simp add: fetch_begin_def Let_def mk_store_def mk_view_def empty_view_def
        default_opts_def)
  show ?thesis
    using start run fetch_stale_response_discarded
      [where cv = "Some (mk_view 1)" and guid = "''g1''" and opts = default_opts
         and ?s0.0 = "mk_store [mk_item 1 []]"
         and ?s1.0 = "(mk_store [mk_item 1 []])\<lparr>page := 1, loading := True, requestId := Some ''g1''\<rparr>"
         and pf = "\<lparr>pf_requestId = ''g1'', pf_reload = False, pf_pageNumber = None,
              pf_params = \<lparr>p_page = 1, p_page_size = 30, p_query = None, p_view = Some 1,
                           p_interaction = None\<rparr>\<rparr>"
         and evs = "[BeginFetch \<lparr>fc_view = Some (mk_view 1), fc_guid = ''g2'', fc_opts = default_opts\<rparr>,
           ResumeFetch
             \<lparr>pf_requestId = ''g2'', pf_reload = False, pf_pageNumber = None,
              pf_params = \<lparr>p_page = 2, p_page_size = 30, p_query = None, p_view = Some 1,
                           p_interaction = None\<rparr>\<rparr>
             \<lparr>resp_total = 2, resp_list = Some [mk_raw 2 ''b'']\<rparr>]"
         and stringify = raw_fields and hook = None
         and data = "\<lparr>resp_total = 1, resp_list = Some [mk_raw 9 ''z'']\<rparr>"
         and s = "mk_store [mk_item 1 []]"]
    by simp
qed

section \<open>\<open>fetch\<close>: the page counter\<close>

text \<open>
  Claim C4, as amended. For every \<open>fetch\<close> that resolves a view: when reload is set or a
  page number is given, the page becomes 1 if the current page is 0, and otherwise the
  given page number, or stays what it is when only reload was requested; when neither is
  given the page becomes \<open>page + 1\<close>.
\<close>

theorem fetch_page_update:
  "snd (fetch_begin cv guid opts s) \<noteq> None \<Longrightarrow>
   page (fst (fetch_begin cv guid opts s)) =
     (if opt_reload opts \<or> opt_pageNumber opts \<noteq> None
      then (if page s = 0 then 1
            else (case opt_pageNumber opts of Some n \<Rightarrow> n | None \<Rightarrow> page s))
      else page s + 1)"
  by (auto simp: fetch_begin_def Let_def split: prod.splits option.splits if_splits)

theorem fetch_page_update_witness:
  "snd (fetch_begin (Some (mk_view 1)) ''g1'' (default_opts\<lparr>opt_reload := True\<rparr>)
        ((mk_store [])\<lparr>page := 3\<rparr>)) \<noteq> None
   \<and> page (fst (fetch_begin (Some (mk_view 1)) ''g1'' (default_opts\<lparr>opt_reload := True\<rparr>)
        ((mk_store [])\<lparr>page := 3\<rparr>))) = 3
   \<and> page (fst (fetch_begin (Some (mk_view 1)) ''g1'' (default_opts\<lparr>opt_pageNumber := Some 5\<rparr>)
        ((mk_store [])\<lparr>page := 3\<rparr>))) = 5
   \<and> page (fst (fetch_begin (Some (mk_view 1)) ''g1'' (default_opts\<lparr>opt_reload := True\<rparr>)
        (mk_store []))) = 1
   \<and> page (fst (fetch_begin (Some (mk_view 1)) ''g1'' default_opts
        ((mk_store [])\<lparr>page := 3\<rparr>))) = 4"
proof -
  have v: "\<And>o' st. snd (fetch_begin (Some (mk_view 1)) ''g1'' o' (st::string store)) \<noteq> None"
    by (simp add: fetch_begin_def Let_def mk_view_def split: prod.splits)
  show ?thesis
    using v fetch_page_update [OF v, of "default_opts\<lparr>opt_reload := True\<rparr>" "(mk_store [])\<lparr>page := 3\<rparr>"]
      fetch_page_update [OF v, of "default_opts\<lparr>opt_pageNumber := Some 5\<rparr>" "(mk_store [])\<lparr>page := 3\<rparr>"]
      fetch_page_update [OF v, of "default_opts\<lparr>opt_reload := True\<rparr>" "mk_store []"]
      fetch_page_update [OF v, of default_opts "(mk_store [])\<lparr>page := 3\<rparr>"]
    by (simp add: default_opts_def mk_store_def)
qed

text \<open>
  Claim C4 as stated has a reload without page number go to page 1 and an explicit page
  number always win. On page 3 a reload stays on page 3; on page 0 a request for page 5
  goes to page 1.
\<close>

theorem fetch_page_update_counterexample:
  "opt_reload (default_opts\<lparr>opt_reload := True\<rparr>)
   \<and> opt_pageNumber (default_opts\<lparr>opt_reload := True\<rparr>) = None
   \<and> snd (fetch_begin (Some (mk_view 1)) ''g1'' (default_opts\<lparr>opt_reload := True\<rparr>)
        ((mk_store [])\<lparr>page := 3\<rparr>)) \<noteq> None
   \<and> page (fst (fetch_begin (Some (mk_view 1)) ''g1'' (default_opts\<lparr>opt_reload := True\<rparr>)
        ((mk_store [])\<lparr>page := 3\<rparr>))) = 3
   \<and> page (fst (fetch_begin (Some (mk_view 1)) ''g1'' (default_opts\<lparr>opt_reload := True\<rparr>)
        ((mk_store [])\<lparr>page := 3\<rparr>))) \<noteq> 1
   \<and> opt_pageNumber (default_opts\<lparr>opt_pageNumber := Some 5\<rparr>) = Some 5
   \<and> snd (fetch_begin (Some (mk_view 1)) ''g1'' (default_opts\<lparr>opt_pageNumber := Some 5\<rparr>)
        (mk_store [])) \<noteq> None
   \<and> page (fst (fetch_begin (Some (mk_view 1)) ''g1'' (default_opts\<lparr>opt_pageNumber := Some 5\<rparr>)
        (mk_store []))) = 1
   \<and> page (fst (fetch_begin (Some (mk_view 1)) ''g1'' (default_opts\<lparr>opt_pageNumber := Some 5\<rparr>)
        (mk_store []))) \<noteq> 5"
  by (simp add: fetch_begin_def Let_def default_opts_def mk_store_def mk_view_def empty_view_def)

section \<open>\<open>fetch\<close> without a view\<close>

text \<open>
  Claim C5. The token is minted and stored in the first statement of \<open>fetch\<close>, before the
  view is resolved. A call without an id of its own, made while no view is selected (or
  the selected view has no id), returns without issuing a request and leaves every field
  as it was but \<open>requestId\<close>, which now holds the new token.
\<close>

theorem fetch_without_view_overwrites_requestId:
  "\<not> truthy_num (opt_id opts) \<Longrightarrow>
   cv = None \<or> (\<exists>v. cv = Some v \<and> view_id v = None) \<Longrightarrow>
   fetch_begin cv guid opts s = (s\<lparr>requestId := Some guid\<rparr>, None)"
  by (auto simp: fetch_begin_def Let_def)

text \<open>The theorem on a store with a fetch in flight under token \<open>g1\<close>: the call changes
  \<open>requestId\<close> to \<open>g2\<close>, and the response of the fetch in flight is then discarded, with
  \<open>loading\<close> still set.\<close>

theorem fetch_without_view_overwrites_requestId_witness:
  "fetch_begin None ''g2'' default_opts
     ((mk_store [])\<lparr>page := 1, loading := True, requestId := Some ''g1''\<rparr>) =
     ((mk_store [])\<lparr>page := 1, loading := True, requestId := Some ''g2''\<rparr>, None)
   \<and> requestId (fst (fetch_begin None ''g2'' default_opts
        ((mk_store [])\<lparr>page := 1, loading := True, requestId := Some ''g1''\<rparr>))) \<noteq>
      requestId ((mk_store [])\<lparr>page := 1, loading := True, requestId := Some ''g1''\<rparr>)
   \<and> fetch_resume raw_fields None
        \<lparr>pf_requestId = ''g1'', pf_reload = False, pf_pageNumber = None,
         pf_params = \<lparr>p_page = 1, p_page_size = 30, p_query = None, p_view = Some 1,
                      p_interaction = None\<rparr>\<rparr>
        \<lparr>resp_total = 1, resp_list = Some [mk_raw 1 ''a'']\<rparr>
        (fst (fetch_begin None ''g2'' default_opts
           ((mk_store [])\<lparr>page := 1, loading := True, requestId := Some ''g1''\<rparr>))) =
       ((mk_store [])\<lparr>page := 1, loading := True, requestId := Some ''g2''\<rparr>,
        [ConsoleLog ''Request g1 was cancelled by another request''])"
  using fetch_without_view_overwrites_requestId
    [of default_opts None "''g2''"
        "(mk_store [])\<lparr>page := 1, loading := True, requestId := Some ''g1''\<rparr>"]
  by (simp add: default_opts_def mk_store_def fetch_resume_def)

section \<open>\<open>fetch\<close>: the highlight after a merge\<close>

lemma listIncludes_object: "listIncludes lst (Obj i) = False"
  by (simp add: listIncludes_def findIndex_never)

text \<open>
  Claim C3. The second half of \<open>fetch\<close> keeps the highlighted Item, not its id, in
  \<^verbatim>\<open>highlightedID\<close> and hands that object to \<open>listIncludes\<close>, where it is compared with
  the numeric ids. For a store without post-processing hook: whenever the response passes
  the guard and the highlight resolved to an Item before the merge, the highlight is
  cleared, whether or not the merged list still holds that id.
\<close>

theorem fetch_merge_clears_resolved_highlight:
  "requestId s = Some (pf_requestId pf) \<Longrightarrow> highlighted s = Some i \<Longrightarrow>
   highlightedId (fst (fetch_resume stringify None pf data s)) = None"
  by (simp add: fetch_resume_def Let_def listIncludes_object set_highlighted_def)

text \<open>The theorem on a list whose highlighted Item 1 is untouched by the merge: the merged
  list still holds id 1 and the highlight is gone.\<close>

theorem fetch_merge_clears_resolved_highlight_witness:
  "highlighted ((mk_store [mk_item 1 [], mk_item 2 []])
       \<lparr>highlightedId := Some 1, requestId := Some ''g1''\<rparr>) = Some (mk_item 1 [])
   \<and> list_items (fst (fetch_resume raw_fields None
        \<lparr>pf_requestId = ''g1'', pf_reload = False, pf_pageNumber = None,
         pf_params = \<lparr>p_page = 1, p_page_size = 30, p_query = None, p_view = Some 1,
                      p_interaction = None\<rparr>\<rparr>
        \<lparr>resp_total = 3, resp_list = Some [mk_raw 3 ''c'']\<rparr>
        ((mk_store [mk_item 1 [], mk_item 2 []])
           \<lparr>highlightedId := Some 1, requestId := Some ''g1''\<rparr>))) =
       [mk_item 1 [], mk_item 2 [], \<lparr>item_id = 3, item_fields = ''c'', source = Some ''c''\<rparr>]
   \<and> highlightedId (fst (fetch_resume raw_fields None
        \<lparr>pf_requestId = ''g1'', pf_reload = False, pf_pageNumber = None,
         pf_params = \<lparr>p_page = 1, p_page_size = 30, p_query = None, p_view = Some 1,
                      p_interaction = None\<rparr>\<rparr>
        \<lparr>resp_total = 3, resp_list = Some [mk_raw 3 ''c'']\<rparr>
        ((mk_store [mk_item 1 [], mk_item 2 []])
           \<lparr>highlightedId := Some 1, requestId := Some ''g1''\<rparr>))) = None"
  using fetch_merge_clears_resolved_highlight
    [of "(mk_store [mk_item 1 [], mk_item 2 []])\<lparr>highlightedId := Some 1, requestId := Some ''g1''\<rparr>"
        "\<lparr>pf_requestId = ''g1'', pf_reload = False, pf_pageNumber = None,
         pf_params = \<lparr>p_page = 1, p_page_size = 30, p_query = None, p_view = Some 1,
                      p_interaction = None\<rparr>\<rparr>"
        "mk_item 1 []" raw_fields "\<lparr>resp_total = 3, resp_list = Some [mk_raw 3 ''c'']\<rparr>"]
  by (simp add: highlighted_def mk_store_def mk_item_def mk_raw_def fetch_resume_def Let_def
      setList_def remove_existing_def wrap_record_def set_highlighted_def listIncludes_object)

section \<open>\<open>apiCall\<close>\<close>

text \<open>
  Claim C6, as amended. For every method name and every result object the transport
  resolves to, \<open>apiCall\<close> returns that result, does not raise, and changes no field of the
  orchestrator but \<open>serverError\<close>. When the result carries an error and its status is not
  404, the entry of the method is written, with the payload, if the result carries a
  response payload, and \<open>serverError\<close> is left as it is if it carries none. When the
  result carries no error, or its status is 404, the entry of the method is removed.
  \<open>apiCall\<close> raises in every other case, that is when the transport has no function of
  that name, rejects, or resolves to \<^verbatim>\<open>null\<close> or \<^verbatim>\<open>undefined\<close>; the orchestrator is then
  left as it was.
\<close>

theorem apiCall_error_bookkeeping:
  "fst (apiCall_resume m (Resolves (Some (r :: 'd api_result))) a) = Inr r
   \<and> (fst (snd (apiCall_resume m (Resolves (Some r)) a)))\<lparr>serverError := serverError a\<rparr> = a
   \<and> (res_error r \<noteq> None \<and> res_status r \<noteq> 404 \<longrightarrow>
        (case res_response r of
           Some payload \<Rightarrow>
             map_of (serverError (fst (snd (apiCall_resume m (Resolves (Some r)) a)))) =
               (map_of (serverError a))
                 (m \<mapsto> \<lparr>err_error = ''Something went wrong'', err_response = payload\<rparr>)
         | None \<Rightarrow>
             serverError (fst (snd (apiCall_resume m (Resolves (Some r)) a))) = serverError a))
   \<and> (res_error r = None \<or> res_status r = 404 \<longrightarrow>
        map_of (serverError (fst (snd (apiCall_resume m (Resolves (Some r)) a)))) =
          (map_of (serverError a))(m := None))
   \<and> apiCall_resume m (NotAFunction :: 'd transport_outcome) a = (Inl TypeError, a, [])
   \<and> apiCall_resume m (Rejects reason :: 'd transport_outcome) a = (Inl (Thrown reason), a, [])
   \<and> apiCall_resume m (Resolves None :: 'd transport_outcome) a = (Inl TypeError, a, [])"
proof -
  have ok: "fst (apiCall_resume m (Resolves (Some r)) a) = Inr r
     \<and> (fst (snd (apiCall_resume m (Resolves (Some r)) a)))\<lparr>serverError := serverError a\<rparr> = a"
    by (simp add: apiCall_resume_def Let_def split: option.splits)
  have err: "res_error r \<noteq> None \<and> res_status r \<noteq> 404 \<longrightarrow>
        (case res_response r of
           Some payload \<Rightarrow>
             map_of (serverError (fst (snd (apiCall_resume m (Resolves (Some r)) a)))) =
               (map_of (serverError a))
                 (m \<mapsto> \<lparr>err_error = ''Something went wrong'', err_response = payload\<rparr>)
         | None \<Rightarrow>
             serverError (fst (snd (apiCall_resume m (Resolves (Some r)) a))) = serverError a)"
    by (auto simp: apiCall_resume_def Let_def update_conv' split: option.splits)
  have clr: "res_error r = None \<or> res_status r = 404 \<longrightarrow>
        map_of (serverError (fst (snd (apiCall_resume m (Resolves (Some r)) a)))) =
          (map_of (serverError a))(m := None)"
    by (auto simp: apiCall_resume_def delete_conv')
  have raises: "apiCall_resume m (NotAFunction :: 'd transport_outcome) a = (Inl TypeError, a, [])
     \<and> apiCall_resume m (Rejects reason :: 'd transport_outcome) a = (Inl (Thrown reason), a, [])
     \<and> apiCall_resume m (Resolves None :: 'd transport_outcome) a = (Inl TypeError, a, [])"
    by (simp add: apiCall_resume_def)
  from ok err clr raises show ?thesis by blast
qed

theorem apiCall_error_bookkeeping_witness:
  "fst (apiCall_resume ''tasks''
       (Resolves (Some \<lparr>res_data = (), res_error = Some ''Server Error'', res_status = 500,
        res_response = Some ''{detail}''\<rparr>))
       (mk_app (mk_store []))) =
     Inr \<lparr>res_data = (), res_error = Some ''Server Error'', res_status = 500,
        res_response = Some ''{detail}''\<rparr>
   \<and> map_of (serverError (fst (snd (apiCall_resume ''tasks''
       (Resolves (Some \<lparr>res_data = (), res_error = Some ''Server Error'', res_status = 500,
        res_response = Some ''{detail}''\<rparr>))
       (mk_app (mk_store [])))))) ''tasks'' =
     Some \<lparr>err_error = ''Something went wrong'', err_response = ''{detail}''\<rparr>
   \<and> map_of (serverError (fst (snd (apiCall_resume ''tasks''
       (Resolves (Some \<lparr>res_data = (), res_error = Some ''Network'', res_status = 500,
        res_response = None\<rparr>))
       ((mk_app (mk_store []))\<lparr>serverError := [(''tasks'',
           \<lparr>err_error = ''Something went wrong'', err_response = ''{old}''\<rparr>)]\<rparr>))))) ''tasks'' =
     Some \<lparr>err_error = ''Something went wrong'', err_response = ''{old}''\<rparr>
   \<and> map_of (serverError (fst (snd (apiCall_resume ''tasks''
       (Resolves (Some \<lparr>res_data = (), res_error = None, res_status = 200,
        res_response = None\<rparr>))
       ((mk_app (mk_store []))\<lparr>serverError := [(''tasks'',
           \<lparr>err_error = ''Something went wrong'', err_response = ''{old}''\<rparr>)]\<rparr>))))) ''tasks'' =
     None
   \<and> map_of (serverError (fst (snd (apiCall_resume ''tasks''
       (Resolves (Some \<lparr>res_data = (), res_error = Some ''Not found'', res_status = 404,
        res_response = Some ''{detail}''\<rparr>))
       ((mk_app (mk_store []))\<lparr>serverError := [(''tasks'',
           \<lparr>err_error = ''Something went wrong'', err_response = ''{old}''\<rparr>)]\<rparr>))))) ''tasks'' =
     None
   \<and> apiCall_resume ''tasks'' (Resolves None :: unit transport_outcome) (mk_app (mk_store [])) =
       (Inl TypeError, mk_app (mk_store []), [])"
  using apiCall_error_bookkeeping
      [where m = "''tasks''" and r = "\<lparr>res_data = (), res_error = Some ''Server Error'', res_status = 500,
        res_response = Some ''{detail}''\<rparr>"
         and a = "(mk_app (mk_store []))"
         and reason = "''Failed to fetch''"]
    apiCall_error_bookkeeping
      [where m = "''tasks''" and r = "\<lparr>res_data = (), res_error = Some ''Network'', res_status = 500,
        res_response = None\<rparr>"
         and a = "(mk_app (mk_store []))\<lparr>serverError := [(''tasks'',
           \<lparr>err_error = ''Something went wrong'', err_response = ''{old}''\<rparr>)]\<rparr>"
         and reason = "''Failed to fetch''"]
    apiCall_error_bookkeeping
      [where m = "''tasks''" and r = "\<lparr>res_data = (), res_error = None, res_status = 200,
        res_response = None\<rparr>"
         and a = "(mk_app (mk_store []))\<lparr>serverError := [(''tasks'',
           \<lparr>err_error = ''Something went wrong'', err_response = ''{old}''\<rparr>)]\<rparr>"
         and reason = "''Failed to fetch''"]
    apiCall_error_bookkeeping
      [where m = "''tasks''" and r = "\<lparr>res_data = (), res_error = Some ''Not found'', res_status = 404,
        res_response = Some ''{detail}''\<rparr>"
         and a = "(mk_app (mk_store []))\<lparr>serverError := [(''tasks'',
           \<lparr>err_error = ''Something went wrong'', err_response = ''{old}''\<rparr>)]\<rparr>"
         and reason = "''Failed to fetch''"]
  by (simp add: mk_app_def)

text \<open>
  Claim C6 as stated has \<open>apiCall\<close> never raise, whatever the transport returns. On a
  transport that resolves to \<^verbatim>\<open>null\<close> the test \<^verbatim>\<open>result.error\<close> of line 460 raises a
  \<^verbatim>\<open>TypeError\<close>, and the reason of a rejected call is thrown at the \<^verbatim>\<open>yield\<close> of
  line 458: no result is returned.
\<close>

theorem apiCall_raises_counterexample:
  "apiCall_resume ''project'' (Resolves None :: unit transport_outcome) (mk_app (mk_store [])) =
     (Inl TypeError, mk_app (mk_store []), [])
   \<and> apiCall_resume ''project'' (Rejects ''Failed to fetch'' :: unit transport_outcome)
        (mk_app (mk_store [])) =
     (Inl (Thrown ''Failed to fetch''), mk_app (mk_store []), [])"
  by (simp add: apiCall_resume_def)

section \<open>\<open>invokeAction\<close>: the parameters of \<^verbatim>\<open>next_task\<close>\<close>

lemma findIndex_nonneg_iff: "(0 \<le> findIndex P xs) = (\<exists>x\<in>set xs. P x)"
  using findIndex_neg_iff [of P xs] by auto

text \<open>
  Claim C7. For the action \<^verbatim>\<open>next_task\<close>: under the preference \<^verbatim>\<open>all\<close> the bundle has
  no \<^verbatim>\<open>filters\<close>, and with the default empty selection snapshot it has no
  \<^verbatim>\<open>selectedItems\<close> and no \<^verbatim>\<open>ordering\<close> either, so it is empty; with any other snapshot
  it holds \<^verbatim>\<open>ordering\<close> and \<^verbatim>\<open>selectedItems\<close>. Under the preference \<^verbatim>\<open>filtered\<close> it
  holds \<^verbatim>\<open>ordering\<close> and \<^verbatim>\<open>filters\<close>: only \<^verbatim>\<open>selectedItems\<close> is missing. This bundle is
  what a local callback receives and what a remote call without a body of the caller
  sends.
\<close>

theorem invokeAction_next_task_params:
  "(view_selected view = None \<or> view_selected view = Some \<lparr>sel_all = False, sel_included = []\<rparr> \<longrightarrow>
      actionParams ''next_task'' (Some ''all'') view = [])
   \<and> (view_selected view = Some snap \<and> (sel_all snap \<or> sel_included snap \<noteq> []) \<longrightarrow>
      actionParams ''next_task'' (Some ''all'') view =
        [(''ordering'', Ordering (view_ordering view)), (''selectedItems'', SelectedItems snap)])
   \<and> actionParams ''next_task'' (Some ''filtered'') view =
        [(''ordering'', Ordering (view_ordering view)),
         (''filters'',
            Filters (case view_conjunction view of Some c \<Rightarrow> c | None \<Rightarrow> ''and'')
                    (case view_serializedFilters view of Some f \<Rightarrow> f | None \<Rightarrow> []))]
   \<and> (currentView a = Some view \<longrightarrow>
        invokeAction_begin True lsm ''next_task'' body a =
          Inr ([], LocalCallback (actionParams ''next_task'' lsm view) view)
        \<and> invokeAction_begin False lsm ''next_task'' None a =
          Inr (if ''next_task'' \<in> set (availableActions a) then [ViewLock] else [],
               RemoteCall ''next_task''
                 (if view_id view \<noteq> None \<and> \<not> view_virtual view then view_id view else None)
                 (actionParams ''next_task'' lsm view)))"
  by (auto simp: actionParams_def invokeAction_begin_def Let_def findIndex_nonneg_iff
      split: option.splits)

theorem invokeAction_next_task_params_witness:
  "actionParams ''next_task'' (Some ''all'') (mk_view 1) = []
   \<and> actionParams ''next_task'' (Some ''all'')
        ((mk_view 1)\<lparr>view_selected := Some \<lparr>sel_all = False, sel_included = [3]\<rparr>\<rparr>) =
       [(''ordering'', Ordering None),
        (''selectedItems'', SelectedItems \<lparr>sel_all = False, sel_included = [3]\<rparr>)]
   \<and> actionParams ''next_task'' (Some ''filtered'') (mk_view 1) =
       [(''ordering'', Ordering None), (''filters'', Filters ''and'' [])]
   \<and> invokeAction_begin True (Some ''all'') ''next_task'' None (mk_app (mk_store [])) =
       Inr ([], LocalCallback [] (mk_view 1))"
  using invokeAction_next_task_params
      [of "mk_view 1" "\<lparr>sel_all = False, sel_included = [3]\<rparr>" "mk_app (mk_store [])" "Some ''all''" None]
    invokeAction_next_task_params
      [of "(mk_view 1)\<lparr>view_selected := Some \<lparr>sel_all = False, sel_included = [3]\<rparr>\<rparr>"
          "\<lparr>sel_all = False, sel_included = [3]\<rparr>" "mk_app (mk_store [])" "Some ''all''" None]
  by (simp add: mk_view_def empty_view_def mk_app_def)

section \<open>\<open>startLabeling\<close>\<close>

lemma closeLabeling_mode: "mode (fst (closeLabeling tab ps a)) = explorer"
  by (simp add: closeLabeling_def sdk_setMode_def setMode_def Let_def split: prod.splits)

text \<open>
  Claim C8. In every state where labeling is configured and there is an active data
  store: if that store has a single-item load in flight, \<open>startLabeling\<close> changes nothing;
  otherwise, on an item that is the active selection it runs \<open>closeLabeling\<close> and ends in
  mode \<open>explorer\<close>; on an item that is not selected it ends in mode \<open>labeling\<close> and calls
  \<open>setTask\<close>, with the item's \<^verbatim>\<open>task_id\<close> as task and its id as annotation when it
  carries a \<^verbatim>\<open>task_id\<close>, and with its id as task otherwise.
\<close>

theorem startLabeling_modes:
  "labelingIsConfigured a \<and> dataStore a = Some ds \<longrightarrow>
     (loadingItem ds \<longrightarrow> startLabeling tab item ps a = Inr (a, []))
     \<and> (\<not> loadingItem ds \<and> item = Some it \<and> li_isSelected it \<longrightarrow>
          startLabeling tab item ps a =
            Inr (fst (closeLabeling tab None (a\<lparr>mode := labeling\<rparr>)),
                 SdkSetMode labeling # snd (closeLabeling tab None (a\<lparr>mode := labeling\<rparr>)))
          \<and> mode (fst (closeLabeling tab None (a\<lparr>mode := labeling\<rparr>))) = explorer)
     \<and> (\<not> loadingItem ds \<and> item = Some it \<and> \<not> li_isSelected it \<longrightarrow>
          startLabeling tab item ps a =
            Inr (a\<lparr>mode := labeling\<rparr>,
                 [SdkSetMode labeling,
                  CallSetTask
                    (case li_task_id it of
                       Some task \<Rightarrow>
                         \<lparr>st_taskID = Some task, st_annotationID = Some (li_id it),
                          st_pushState = ps\<rparr>
                     | None \<Rightarrow>
                         \<lparr>st_taskID = Some (li_id it), st_annotationID = None,
                          st_pushState = ps\<rparr>)]))"
  by (auto simp: startLabeling_def confirmLabelingConfigured_def sdk_setMode_def setMode_def Let_def
      closeLabeling_mode split: prod.splits option.splits)

theorem startLabeling_modes_witness:
  "startLabeling None (Some \<lparr>li_id = 4, li_task_id = None, li_isSelected = True\<rparr>) None
     ((mk_app ((mk_store [mk_item 4 []])\<lparr>selectedId := Some 4\<rparr>))\<lparr>mode := labeling\<rparr>) =
     Inr (mk_app (mk_store [mk_item 4 []]),
          [SdkSetMode labeling, HistoryNavigate None None, HistoryForceNavigate ''tab'',
           SdkSetMode explorer, SdkDestroyLSF])
   \<and> startLabeling None (Some \<lparr>li_id = 9, li_task_id = Some 7, li_isSelected = False\<rparr>) None
     (mk_app (mk_store [mk_item 4 []])) =
     Inr ((mk_app (mk_store [mk_item 4 []]))\<lparr>mode := labeling\<rparr>,
          [SdkSetMode labeling,
           CallSetTask \<lparr>st_taskID = Some 7, st_annotationID = Some 9, st_pushState = None\<rparr>])
   \<and> startLabeling None (Some \<lparr>li_id = 4, li_task_id = None, li_isSelected = False\<rparr>) None
     (mk_app ((mk_store [mk_item 4 []])\<lparr>loadingItem := True\<rparr>)) =
     Inr (mk_app ((mk_store [mk_item 4 []])\<lparr>loadingItem := True\<rparr>), [])"
  using startLabeling_modes
      [where a = "(mk_app ((mk_store [mk_item 4 []])\<lparr>selectedId := Some 4\<rparr>))\<lparr>mode := labeling\<rparr>"
         and ds = "(mk_store [mk_item 4 []])\<lparr>selectedId := Some 4\<rparr>" and tab = None
         and item = "Some \<lparr>li_id = 4, li_task_id = None, li_isSelected = True\<rparr>"
         and it = "\<lparr>li_id = 4, li_task_id = None, li_isSelected = True\<rparr>" and ps = None]
    startLabeling_modes
      [where a = "mk_app (mk_store [mk_item 4 []])"
         and ds = "mk_store [mk_item 4 []]" and tab = None
         and item = "Some \<lparr>li_id = 9, li_task_id = Some 7, li_isSelected = False\<rparr>"
         and it = "\<lparr>li_id = 9, li_task_id = Some 7, li_isSelected = False\<rparr>" and ps = None]
    startLabeling_modes
      [where a = "mk_app ((mk_store [mk_item 4 []])\<lparr>loadingItem := True\<rparr>)"
         and ds = "(mk_store [mk_item 4 []])\<lparr>loadingItem := True\<rparr>" and tab = None
         and item = "Some \<lparr>li_id = 4, li_task_id = None, li_isSelected = False\<rparr>"
         and it = "\<lparr>li_id = 4, li_task_id = None, li_isSelected = False\<rparr>" and ps = None]
  by (simp add: labelingIsConfigured_def dataStore_def target_def mk_app_def mk_view_def
      empty_view_def mk_store_def closeLabeling_def unsetTask_def unset_def set_selected_def
      sdk_setMode_def setMode_def Let_def)

end
